theory Spec2Isabelle
  imports Main
begin

section \<open>The CRUD server of \<open>index.js\<close>\<close>

text \<open>
  The server keeps one collection of items in the file \<open>items.json\<close> and answers
  each HTTP request by loading the whole file, working on the array in memory and, for
  a mutation, writing the whole array back. The model threads the contents of that file
  through every function that touches it.

  Conventions of the model:
  \<^item> An item's id is an integer, as the data model has it. JavaScript keeps a number as
    a binary64 value: the sum \<open>maxId + 1\<close> and the number read from the digits of a
    route \<open>/items/<digits>\<close> are rounded to the nearest such value, which
    \<open>toDouble\<close> computes on the integers.
  \<^item> \<open>JSON.parse\<close> and \<open>JSON.stringify\<close> belong to the platform, not to the
    repository. A text is therefore represented by what \<open>JSON.parse\<close> makes of it:
    the empty text, a text that parses to a value, or a text that \<open>JSON.parse\<close>
    rejects; \<open>JSON.stringify v\<close> is the text that parses back to \<open>v\<close>.
  \<^item> The data file, when it parses, holds an array of items with the three fields the
    server writes.
  \<^item> A request is given by its method, by the \<open>pathname\<close> that the URL parser returns
    for it, by its \<open>content-type\<close> header and by the text of its body. A response is its
    status and its body; the headers that are the same on every response are left out.
  \<^item> Reads and writes of the data file succeed.
\<close>

subsection \<open>Data\<close>

record item =
  item_id :: int
  item_name :: string
  item_description :: string

text \<open>
  A JSON value as \<open>JSON.parse\<close> returns it. An object is the list of its
  properties, each key once. The handler tests a number only for being zero, so the
  integers stand for all numbers.
\<close>

datatype json =
    JNull
  | JBool bool
  | JNum int
  | JStr string
  | JArr "json list"
  | JObj "(string \<times> json) list"

datatype 'a jtext = Empty_text | Text_of 'a | Invalid_text

text \<open>A number read from the digits of a path: an integer, or \<open>Infinity\<close> when the
  digits are beyond the range of binary64.\<close>

datatype number = Finite int | Infinity

type_synonym data_file = "item list jtext option"

record request =
  req_method :: string
  req_pathname :: string
  req_content_type :: "string option"
  req_body :: "json jtext"

datatype payload = Json_payload json | Html string | Javascript string | No_payload

record response =
  status :: nat
  payload :: payload

subsection \<open>The platform's JSON functions\<close>

text \<open>\<open>JSON.parse\<close> throws on the empty text and on an invalid one: \<open>None\<close>.\<close>

fun JSON_parse :: "'a jtext \<Rightarrow> 'a option" where
  "JSON_parse Empty_text = None"
| "JSON_parse (Text_of v) = Some v"
| "JSON_parse Invalid_text = None"

definition JSON_stringify :: "'a \<Rightarrow> 'a jtext" where
  "JSON_stringify v = Text_of v"

text \<open>What \<open>JSON.stringify\<close> writes for an item, for an array of items and for an
  error object.\<close>

definition item_json :: "item \<Rightarrow> json" where
  "item_json i =
     JObj [(''id'', JNum (item_id i)), (''name'', JStr (item_name i)),
           (''description'', JStr (item_description i))]"

definition items_json :: "item list \<Rightarrow> json" where
  "items_json items = JArr (map item_json items)"

definition error_json :: "string \<Rightarrow> json" where
  "error_json msg = JObj [(''error'', JStr msg)]"

text \<open>JavaScript's truthiness of a parsed value, as \<open>!body\<close> tests it.\<close>

fun falsy :: "json \<Rightarrow> bool" where
  "falsy JNull = True"
| "falsy (JBool b) = (\<not> b)"
| "falsy (JNum n) = (n = 0)"
| "falsy (JStr s) = (s = [])"
| "falsy (JArr xs) = False"
| "falsy (JObj fs) = False"

text \<open>
  Reading the property \<open>name\<close> or \<open>description\<close> of a parsed value: only an object
  can have it; on every other value the read gives \<open>undefined\<close>, here \<open>None\<close>.
\<close>

fun property :: "json \<Rightarrow> string \<Rightarrow> json option" where
  "property (JObj fs) k = map_of fs k"
| "property _ k = None"

text \<open>\<open>String.prototype.toUpperCase\<close> on the ASCII letters of a method name.\<close>

definition toUpperCase :: "string \<Rightarrow> string" where
  "toUpperCase s =
     map (\<lambda>c. case map_of (zip ''abcdefghijklmnopqrstuvwxyz'' ''ABCDEFGHIJKLMNOPQRSTUVWXYZ'') c of
                 Some u \<Rightarrow> u | None \<Rightarrow> c) s"

text \<open>
  The binary64 value nearest to an integer, the tie going to the even significand, as
  the arithmetic of JavaScript rounds every result: an integer of at most 53 bits is
  kept; a longer one keeps its leading 53 bits, rounded. The exponent is not bounded
  here; \<open>Number\<close> below tests the range.
\<close>

function bitLength :: "int \<Rightarrow> nat" where
  "bitLength n = (if n \<le> 0 then 0 else Suc (bitLength (n div 2)))"
  by pat_completeness auto
termination
  by (relation "measure nat") auto

declare bitLength.simps [simp del]

definition toDouble :: "int \<Rightarrow> int" where
  "toDouble n =
     (let a = \<bar>n\<bar>; e = bitLength a - 53 in
      if e = 0 then n
      else
        (let q = a div 2 ^ e; r = a mod 2 ^ e; half = 2 ^ (e - 1);
             q1 = (if r > half \<or> (r = half \<and> odd q) then q + 1 else q)
         in sgn n * (q1 * 2 ^ e)))"

text \<open>\<open>Number\<close> on a string of decimal digits: the nearest binary64 value, which is
  \<open>Infinity\<close> from \<open>2 ^ 1024\<close> on. The decimal text of a number is how the frontend
  builds the path \<open>/items/${id}\<close>.\<close>

definition isDigit :: "char \<Rightarrow> bool" where
  "isDigit c = (c \<in> set ''0123456789'')"

definition digitVal :: "char \<Rightarrow> nat" where
  "digitVal c = of_char c - 48"

definition digitsValue :: "string \<Rightarrow> int" where
  "digitsValue ds = foldl (\<lambda>n c. 10 * n + int (digitVal c)) 0 ds"

definition Number :: "string \<Rightarrow> number" where
  "Number ds =
     (let v = toDouble (digitsValue ds) in if v \<ge> 2 ^ 1024 then Infinity else Finite v)"

definition digitChar :: "nat \<Rightarrow> char" where
  "digitChar d = ''0123456789'' ! d"

fun decimal :: "nat \<Rightarrow> string" where
  "decimal n = (if n < 10 then [digitChar n] else decimal (n div 10) @ [digitChar (n mod 10)])"

declare decimal.simps [simp del]

subsection \<open>The persistence functions\<close>

definition ensureDataFile :: "data_file \<Rightarrow> data_file" where
  "ensureDataFile f = (case f of None \<Rightarrow> Some (JSON_stringify []) | Some data \<Rightarrow> Some data)"

text \<open>
  \<open>readItems\<close> returns the array and the file as it leaves it. The file exists after
  \<open>ensureDataFile\<close>, so the last branch is never taken.
\<close>

definition readItems :: "data_file \<Rightarrow> item list \<times> data_file" where
  "readItems f =
     (let f1 = ensureDataFile f in
      case f1 of
        Some data \<Rightarrow>
          (case JSON_parse data of
             Some items \<Rightarrow> (items, f1)
           | None \<Rightarrow> ([], Some (JSON_stringify [])))
      | None \<Rightarrow> ([], f1))"

text \<open>The persisted collection: what the next load returns.\<close>

definition collection :: "data_file \<Rightarrow> item list" where
  "collection f = fst (readItems f)"

definition writeItems :: "item list \<Rightarrow> data_file \<Rightarrow> data_file" where
  "writeItems items f = Some (JSON_stringify items)"

text \<open>The sum \<open>maxId + 1\<close> is a sum of binary64 values.\<close>

definition getNextId :: "item list \<Rightarrow> int" where
  "getNextId items =
     (let maxId = foldl (\<lambda>max item. if item_id item > max then item_id item else max) 0 items
      in toDouble (maxId + 1))"

subsection \<open>The request handler\<close>

definition sendJson :: "nat \<Rightarrow> json \<Rightarrow> response" where
  "sendJson statusCode body = \<lparr>status = statusCode, payload = Json_payload body\<rparr>"

text \<open>The promise of \<open>parseRequestBody\<close>: rejected with a message, or resolved.\<close>

definition parseRequestBody :: "request \<Rightarrow> string + json" where
  "parseRequestBody req =
     (if req_body req = Empty_text then Inr JNull
      else case JSON_parse (req_body req) of
             Some j \<Rightarrow> Inr j
           | None \<Rightarrow> Inl ''Invalid JSON'')"

text \<open>The pattern \<open>/^\/items\/(\d+)$/\<close>: the digits it captures, if it matches.\<close>

definition idMatch :: "string \<Rightarrow> string option" where
  "idMatch pathname =
     (let ds = drop 7 pathname in
      if take 7 pathname = ''/items/'' \<and> ds \<noteq> [] \<and> list_all isDigit ds then Some ds else None)"

fun findIndex :: "('a \<Rightarrow> bool) \<Rightarrow> 'a list \<Rightarrow> nat option" where
  "findIndex P [] = None"
| "findIndex P (x # xs) = (if P x then Some 0 else map_option Suc (findIndex P xs))"

text \<open>The two static routes read a file of the \<open>frontend\<close> directory; \<open>frontend name\<close>
  is its text, or \<open>None\<close> when the read fails.\<close>

definition serveStatic :: "(string \<Rightarrow> string option) \<Rightarrow> string \<Rightarrow> (string \<Rightarrow> payload) \<Rightarrow> response" where
  "serveStatic frontend name kind =
     (case frontend name of
        None \<Rightarrow> sendJson 500 (error_json (''Failed to load '' @ name))
      | Some data \<Rightarrow> \<lparr>status = 200, payload = kind data\<rparr>)"

text \<open>Route \<open>GET /items/:id\<close>. The test \<open>i.id === id\<close> compares the stored integer
  with the number of the path.\<close>

definition getItem :: "number \<Rightarrow> item list \<Rightarrow> data_file \<Rightarrow> response \<times> data_file" where
  "getItem n items f =
     (case find (\<lambda>i. Finite (item_id i) = n) items of
        None \<Rightarrow> (sendJson 404 (error_json ''Item not found''), f)
      | Some item \<Rightarrow> (sendJson 200 (item_json item), f))"

text \<open>The expression \<open>typeof body.description === 'string' ? body.description : ''\<close>
  of both writing routes.\<close>

definition descriptionOf :: "json \<Rightarrow> string" where
  "descriptionOf body = (case property body ''description'' of Some (JStr d) \<Rightarrow> d | _ \<Rightarrow> '''')"

text \<open>Route \<open>POST /items\<close>. The test \<open>typeof body.name !== 'string'\<close> is the case
  distinction on the property.\<close>

definition createItem :: "request \<Rightarrow> item list \<Rightarrow> data_file \<Rightarrow> response \<times> data_file" where
  "createItem req items f =
     (case parseRequestBody req of
        Inl message \<Rightarrow> (sendJson 400 (error_json message), f)
      | Inr body \<Rightarrow>
          (if falsy body then (sendJson 400 (error_json ''Invalid request body: `name` is required''), f)
           else case property body ''name'' of
             Some (JStr name) \<Rightarrow>
               (let newItem = \<lparr>item_id = getNextId items, item_name = name,
                                item_description = descriptionOf body\<rparr>;
                    items1 = items @ [newItem]
                in (sendJson 201 (item_json newItem), writeItems items1 f))
           | _ \<Rightarrow> (sendJson 400 (error_json ''Invalid request body: `name` is required''), f)))"

text \<open>Route \<open>PUT /items/:id\<close>: the body is parsed first, then the item is looked up,
  then the body is validated.\<close>

definition updateItem :: "number \<Rightarrow> request \<Rightarrow> item list \<Rightarrow> data_file \<Rightarrow> response \<times> data_file" where
  "updateItem n req items f =
     (case parseRequestBody req of
        Inl message \<Rightarrow> (sendJson 400 (error_json message), f)
      | Inr body \<Rightarrow>
          (case findIndex (\<lambda>i. Finite (item_id i) = n) items of
             None \<Rightarrow> (sendJson 404 (error_json ''Item not found''), f)
           | Some index \<Rightarrow>
               (if falsy body then (sendJson 400 (error_json ''Invalid request body: `name` is required''), f)
                else case property body ''name'' of
                  Some (JStr name) \<Rightarrow>
                    (let items1 = items[index :=
                           \<lparr>item_id = item_id (items ! index), item_name = name,
                            item_description = descriptionOf body\<rparr>]
                     in (sendJson 200 (item_json (items1 ! index)), writeItems items1 f))
                | _ \<Rightarrow> (sendJson 400 (error_json ''Invalid request body: `name` is required''), f))))"

text \<open>Route \<open>DELETE /items/:id\<close>: \<open>splice(index, 1)\<close> removes the element at \<open>index\<close>.\<close>

definition deleteItem :: "number \<Rightarrow> item list \<Rightarrow> data_file \<Rightarrow> response \<times> data_file" where
  "deleteItem n items f =
     (case findIndex (\<lambda>i. Finite (item_id i) = n) items of
        None \<Rightarrow> (sendJson 404 (error_json ''Item not found''), f)
      | Some index \<Rightarrow>
          (let deleted = items ! index;
               items1 = take index items @ drop (Suc index) items
           in (sendJson 200 (item_json deleted), writeItems items1 f)))"

text \<open>
  \<open>handleRequest\<close> in the order of the source: the content-type gate, the load, the
  static routes, the list, the routes with an id and the creation, the fallback. When
  the pattern does not match, \<open>hasId\<close> is false and only the creation remains before
  the fallback.
\<close>

definition handleRequest :: "(string \<Rightarrow> string option) \<Rightarrow> request \<Rightarrow> data_file \<Rightarrow> response \<times> data_file" where
  "handleRequest frontend req f =
     (let pathname = req_pathname req;
          method = toUpperCase (req_method req)
      in
      if (method = ''POST'' \<or> method = ''PUT'') \<and> req_content_type req \<noteq> Some ''application/json''
      then (sendJson 415 (error_json ''Content-Type must be application/json''), f)
      else
        (let (items, f1) = readItems f in
         if method = ''GET'' \<and> pathname = ''/'' then (serveStatic frontend ''index.html'' Html, f1)
         else if method = ''GET'' \<and> pathname = ''/script.js'' then (serveStatic frontend ''script.js'' Javascript, f1)
         else if method = ''GET'' \<and> pathname = ''/items'' then (sendJson 200 (items_json items), f1)
         else
           (case idMatch pathname of
              Some ds \<Rightarrow>
                (let n = Number ds in
                 if method = ''GET'' then getItem n items f1
                 else if method = ''POST'' \<and> pathname = ''/items'' then createItem req items f1
                 else if method = ''PUT'' then updateItem n req items f1
                 else if method = ''DELETE'' then deleteItem n items f1
                 else (sendJson 404 (error_json ''Not found''), f1))
            | None \<Rightarrow>
                (if method = ''POST'' \<and> pathname = ''/items'' then createItem req items f1
                 else (sendJson 404 (error_json ''Not found''), f1)))))"

text \<open>The listener of \<open>http.createServer\<close>: a preflight \<open>OPTIONS\<close> request is answered
  at once, every other request goes to \<open>handleRequest\<close>.\<close>

definition requestListener :: "(string \<Rightarrow> string option) \<Rightarrow> request \<Rightarrow> data_file \<Rightarrow> response \<times> data_file" where
  "requestListener frontend req f =
     (if toUpperCase (req_method req) = ''OPTIONS'' then (\<lparr>status = 204, payload = No_payload\<rparr>, f)
      else handleRequest frontend req f)"

text \<open>A deployment without the \<open>frontend\<close> directory: every read of a static file
  fails. It is the environment of the examples below.\<close>

definition no_frontend :: "string \<Rightarrow> string option" where
  "no_frontend name = None"

section \<open>Properties\<close>

subsection \<open>Loading and saving\<close>

lemma ensureDataFile_exists: "ensureDataFile f \<noteq> None"
  by (simp add: ensureDataFile_def split: option.splits)

lemma readItems_eq: "readItems f = (collection f, Some (Text_of (collection f)))"
proof (cases f)
  case None
  then show ?thesis
    by (simp add: collection_def readItems_def ensureDataFile_def JSON_stringify_def)
next
  case (Some data)
  then show ?thesis
    by (cases data) (simp_all add: collection_def readItems_def ensureDataFile_def JSON_stringify_def)
qed

lemma collection_Text_of [simp]: "collection (Some (Text_of items)) = items"
  by (simp add: collection_def readItems_def ensureDataFile_def)

lemma collection_unparsable: "JSON_parse data = None \<Longrightarrow> collection (Some data) = []"
  by (cases data) (simp_all add: collection_def readItems_def ensureDataFile_def)

lemma collection_None [simp]: "collection None = []"
  by (simp add: collection_def readItems_def ensureDataFile_def JSON_stringify_def)

lemma collection_writeItems [simp]: "collection (writeItems items f) = items"
  by (simp add: writeItems_def JSON_stringify_def)

lemma readItems_unparsable:
  "JSON_parse data = None \<Longrightarrow> readItems (Some data) = ([], Some (JSON_stringify []))"
  by (simp add: readItems_def ensureDataFile_def)

subsection \<open>Rounding\<close>

lemma bitLength_le: "n < 2 ^ k \<Longrightarrow> bitLength n \<le> k"
proof (induction k arbitrary: n)
  case 0
  then have "n \<le> 0" by simp
  then show ?case by (simp add: bitLength.simps [of n])
next
  case (Suc k)
  show ?case
  proof (cases "n \<le> 0")
    case True
    then show ?thesis by (simp add: bitLength.simps [of n])
  next
    case False
    from Suc.prems have "n div 2 < 2 ^ k" by simp
    then have "bitLength (n div 2) \<le> k" by (rule Suc.IH)
    with False show ?thesis by (simp add: bitLength.simps [of n])
  qed
qed

lemma toDouble_below: "\<bar>n\<bar> < 2 ^ 53 \<Longrightarrow> toDouble n = n"
  using bitLength_le [of "\<bar>n\<bar>" 53] by (simp add: toDouble_def Let_def)

lemma toDouble_2_53: "toDouble 9007199254740992 = 9007199254740992"
  by code_simp

lemma toDouble_minus_2_53: "toDouble (- 9007199254740992) = - 9007199254740992"
  by code_simp

lemma toDouble_small: "\<bar>n\<bar> \<le> 2 ^ 53 \<Longrightarrow> toDouble n = n"
proof -
  assume "\<bar>n\<bar> \<le> 2 ^ 53"
  then have "\<bar>n\<bar> < 2 ^ 53 \<or> n = 9007199254740992 \<or> n = - 9007199254740992"
    by simp linarith
  then show ?thesis
    using toDouble_below [of n] toDouble_2_53 toDouble_minus_2_53 by auto
qed

lemma toDouble_2_53_plus_1: "toDouble 9007199254740993 = 9007199254740992"
  by code_simp

subsection \<open>The next id\<close>

lemma foldl_max_eq:
  "foldl (\<lambda>max item. if item_id item > max then item_id item else max) m items
     = Max (insert m (item_id ` set items))"
proof (induction items arbitrary: m)
  case Nil
  show ?case by simp
next
  case (Cons a items)
  have "Max (insert (if m < item_id a then item_id a else m) (item_id ` set items))
          = Max (insert m (insert (item_id a) (item_id ` set items)))"
    by (cases "item_id ` set items = {}") (auto simp: max_def)
  then show ?case by (simp add: Cons.IH)
qed

lemma getNextId_Max: "getNextId items = toDouble (Max (insert 0 (item_id ` set items)) + 1)"
  by (simp add: getNextId_def foldl_max_eq)

lemma Max_insert_0:
  "Max (insert 0 (item_id ` set items))
     = (if \<exists>i\<in>set items. 0 \<le> item_id i then Max (item_id ` set items) else 0)"
proof (cases "items = []")
  case True
  then show ?thesis by simp
next
  case False
  then have eq: "Max (insert 0 (item_id ` set items)) = max 0 (Max (item_id ` set items))"
    by simp
  show ?thesis
  proof (cases "\<exists>i\<in>set items. 0 \<le> item_id i")
    case True
    then obtain i where "i \<in> set items" and "0 \<le> item_id i" by blast
    then have "0 \<le> Max (item_id ` set items)"
      by (meson List.finite_set Max_ge finite_imageI imageI order_trans)
    with True eq show ?thesis by simp
  next
    case no: False
    from False have "Max (item_id ` set items) \<in> item_id ` set items"
      by (intro Max_in) simp_all
    with no have "Max (item_id ` set items) < 0" by auto
    with no eq show ?thesis by simp
  qed
qed

lemma Max_insert_0_bounds:
  assumes "\<forall>i\<in>set items. item_id i < 2 ^ 53"
  shows "0 \<le> Max (insert 0 (item_id ` set items))"
    and "Max (insert 0 (item_id ` set items)) < 2 ^ 53"
proof -
  show "0 \<le> Max (insert 0 (item_id ` set items))" by simp
  have "Max (insert 0 (item_id ` set items)) \<in> insert 0 (item_id ` set items)"
    by (intro Max_in) simp_all
  then have "Max (insert 0 (item_id ` set items)) = 0 \<or>
             (\<exists>i\<in>set items. Max (insert 0 (item_id ` set items)) = item_id i)"
    by blast
  then show "Max (insert 0 (item_id ` set items)) < 2 ^ 53"
  proof
    assume "Max (insert 0 (item_id ` set items)) = 0"
    then show ?thesis by (simp only: zero_less_power zero_less_numeral)
  next
    assume "\<exists>i\<in>set items. Max (insert 0 (item_id ` set items)) = item_id i"
    then obtain i where "i \<in> set items" and "Max (insert 0 (item_id ` set items)) = item_id i"
      by blast
    with assms show ?thesis by (simp only:)
  qed
qed

lemma getNextId_exact:
  assumes "\<forall>i\<in>set items. item_id i < 2 ^ 53"
  shows "getNextId items = Max (insert 0 (item_id ` set items)) + 1"
proof -
  let ?m = "Max (insert 0 (item_id ` set items))"
  from Max_insert_0_bounds [OF assms] have "0 \<le> ?m" and "?m < 2 ^ 53" .
  then have "\<bar>?m + 1\<bar> \<le> 2 ^ 53" by linarith
  then have "toDouble (?m + 1) = ?m + 1" by (rule toDouble_small)
  then show ?thesis by (simp only: getNextId_Max)
qed

lemma getNextId_fresh:
  assumes "\<forall>i\<in>set items. item_id i < 2 ^ 53" and "i \<in> set items"
  shows "item_id i < getNextId items"
proof -
  have "item_id i \<le> Max (insert 0 (item_id ` set items))"
    using assms(2) by (intro Max_ge) auto
  then show ?thesis by (simp add: getNextId_exact [OF assms(1)])
qed

lemma getNextId_notin:
  assumes "\<forall>i\<in>set items. item_id i < 2 ^ 53"
  shows "getNextId items \<notin> item_id ` set items"
proof
  assume "getNextId items \<in> item_id ` set items"
  then obtain i where "i \<in> set items" and "item_id i = getNextId items" by auto
  with getNextId_fresh [OF assms, of i] show False by simp
qed

lemma getNextId_range:
  assumes "\<forall>i\<in>set items. item_id i < 2 ^ 53"
  shows "1 \<le> getNextId items" and "getNextId items \<le> 2 ^ 53"
proof -
  let ?m = "Max (insert 0 (item_id ` set items))"
  from Max_insert_0_bounds [OF assms] have m: "0 \<le> ?m" "?m < 2 ^ 53" .
  from m(1) show "1 \<le> getNextId items" by (simp add: getNextId_exact [OF assms])
  from m(2) show "getNextId items \<le> 2 ^ 53" by (simp only: getNextId_exact [OF assms])
qed

subsection \<open>Paths and digits\<close>

lemma idMatch_items [simp]: "idMatch ''/items'' = None"
  by (simp add: idMatch_def)

lemma idMatch_root [simp]: "idMatch ''/'' = None"
  by (simp add: idMatch_def)

lemma idMatch_script [simp]: "idMatch ''/script.js'' = None"
  by (simp add: idMatch_def isDigit_def)

lemma digitsValue_snoc: "digitsValue (ds @ [c]) = 10 * digitsValue ds + int (digitVal c)"
  by (simp add: digitsValue_def)

lemma digit_cases: "d < 10 \<Longrightarrow> d \<in> {0, 1, 2, 3, 4, 5, 6, 7, 8, 9::nat}"
  by auto

lemma digitVal_digitChar: "d < 10 \<Longrightarrow> digitVal (digitChar d) = d"
  using digit_cases [of d] by (auto simp: digitVal_def digitChar_def)

lemma isDigit_digitChar: "d < 10 \<Longrightarrow> isDigit (digitChar d)"
  by (simp add: isDigit_def digitChar_def del: set_simps)

lemma digitsValue_decimal: "digitsValue (decimal n) = int n"
proof (induction n rule: decimal.induct)
  case (1 n)
  show ?case
  proof (cases "n < 10")
    case True
    then show ?thesis by (simp add: decimal.simps [of n] digitsValue_def digitVal_digitChar)
  next
    case False
    then have "digitsValue (decimal n) = 10 * int (n div 10) + int (n mod 10)"
      using 1 by (simp add: decimal.simps [of n] digitsValue_snoc digitVal_digitChar)
    also have "\<dots> = int (10 * (n div 10) + n mod 10)"
      by (simp only: of_nat_add of_nat_mult of_nat_numeral)
    also have "\<dots> = int n"
      by simp
    finally show ?thesis .
  qed
qed

lemma decimal_digits: "decimal n \<noteq> [] \<and> list_all isDigit (decimal n)"
proof (induction n rule: decimal.induct)
  case (1 n)
  show ?case
  proof (cases "n < 10")
    case True
    then show ?thesis by (simp add: decimal.simps [of n] isDigit_digitChar)
  next
    case False
    then show ?thesis using 1 by (simp add: decimal.simps [of n] isDigit_digitChar)
  qed
qed

lemma idMatch_decimal: "idMatch (''/items/'' @ decimal n) = Some (decimal n)"
  using decimal_digits [of n] by (simp add: idMatch_def)

lemma Number_exact:
  assumes "digitsValue ds \<le> 2 ^ 53" and "0 \<le> digitsValue ds"
  shows "Number ds = Finite (digitsValue ds)"
proof -
  have "toDouble (digitsValue ds) = digitsValue ds"
    using assms by (intro toDouble_small) simp
  moreover have "digitsValue ds < 2 ^ 1024"
  proof -
    have "(2::int) ^ 53 < 2 ^ 1024" by (rule power_strict_increasing) simp_all
    with assms(1) show ?thesis by (rule le_less_trans)
  qed
  ultimately show ?thesis by (simp only: Number_def Let_def not_le [symmetric] if_False)
qed

lemma Number_decimal: "int n \<le> 2 ^ 53 \<Longrightarrow> Number (decimal n) = Finite (int n)"
  using Number_exact [of "decimal n"] by (simp add: digitsValue_decimal)

subsection \<open>Dispatch\<close>

lemma handleRequest_gate:
  assumes "toUpperCase (req_method req) = ''POST'' \<or> toUpperCase (req_method req) = ''PUT''"
      and "req_content_type req \<noteq> Some ''application/json''"
  shows "handleRequest frontend req f = (sendJson 415 (error_json ''Content-Type must be application/json''), f)"
  using assms by (simp add: handleRequest_def)

lemma handleRequest_list:
  assumes "toUpperCase (req_method req) = ''GET''" and "req_pathname req = ''/items''"
  shows "handleRequest frontend req f = (sendJson 200 (items_json (collection f)), Some (Text_of (collection f)))"
  using assms by (simp add: handleRequest_def readItems_eq)

lemma handleRequest_get:
  assumes "toUpperCase (req_method req) = ''GET''" and "idMatch (req_pathname req) = Some ds"
  shows "handleRequest frontend req f = getItem (Number ds) (collection f) (Some (Text_of (collection f)))"
proof -
  from assms(2) have "req_pathname req \<noteq> ''/''" "req_pathname req \<noteq> ''/script.js''"
    "req_pathname req \<noteq> ''/items''" by auto
  with assms show ?thesis by (simp add: handleRequest_def readItems_eq)
qed

lemma handleRequest_create:
  assumes "toUpperCase (req_method req) = ''POST''" and "req_pathname req = ''/items''"
      and "req_content_type req = Some ''application/json''"
  shows "handleRequest frontend req f = createItem req (collection f) (Some (Text_of (collection f)))"
  using assms by (simp add: handleRequest_def readItems_eq)

lemma handleRequest_update:
  assumes "toUpperCase (req_method req) = ''PUT''" and "idMatch (req_pathname req) = Some ds"
      and "req_content_type req = Some ''application/json''"
  shows "handleRequest frontend req f = updateItem (Number ds) req (collection f) (Some (Text_of (collection f)))"
  using assms by (simp add: handleRequest_def readItems_eq)


subsection \<open>Searching the collection\<close>

lemma findIndex_None: "findIndex P xs = None \<longleftrightarrow> (\<forall>x\<in>set xs. \<not> P x)"
  by (induction xs) auto

lemma findIndex_Some:
  "findIndex P xs = Some i \<Longrightarrow> i < length xs \<and> P (xs ! i) \<and> (\<forall>j<i. \<not> P (xs ! j))"
proof (induction xs arbitrary: i)
  case Nil
  then show ?case by simp
next
  case (Cons x xs)
  show ?case
  proof (cases "P x")
    case True
    with Cons.prems show ?thesis by simp
  next
    case False
    with Cons.prems obtain k where k: "findIndex P xs = Some k" "i = Suc k" by auto
    from Cons.IH [OF k(1)] False k(2) show ?thesis
      by (auto simp: nth_Cons split: nat.splits)
  qed
qed

lemma findIndex_map: "findIndex (\<lambda>x. P (g x)) xs = findIndex P (map g xs)"
  by (induction xs) simp_all

lemma find_snoc_fresh:
  "\<forall>x\<in>set xs. \<not> P x \<Longrightarrow> P y \<Longrightarrow> find P (xs @ [y]) = Some y"
  by (induction xs) simp_all

lemma map_item_id_update:
  "map item_id (items[index := \<lparr>item_id = item_id (items ! index), item_name = name,
                               item_description = d\<rparr>]) = map item_id items"
proof (cases "index < length items")
  case True
  then show ?thesis by (simp add: map_update list_update_same_conv)
next
  case False
  then show ?thesis by (simp add: map_update not_less list_update_beyond)
qed

lemma distinct_remove_nth: "distinct ys \<Longrightarrow> distinct (take i ys @ drop (Suc i) ys)"
  by (simp add: set_take_disj_set_drop_if_distinct)

lemma findIndex_update:
  assumes "findIndex (\<lambda>i. Finite (item_id i) = n) items = Some index"
  shows "findIndex (\<lambda>i. Finite (item_id i) = n)
           (items[index := \<lparr>item_id = item_id (items ! index), item_name = name,
                             item_description = d\<rparr>]) = Some index"
proof -
  have "findIndex (\<lambda>i. Finite (item_id i) = n)
           (items[index := \<lparr>item_id = item_id (items ! index), item_name = name,
                             item_description = d\<rparr>])
        = findIndex (\<lambda>k. Finite k = n) (map item_id
           (items[index := \<lparr>item_id = item_id (items ! index), item_name = name,
                             item_description = d\<rparr>]))"
    by (rule findIndex_map)
  also have "\<dots> = findIndex (\<lambda>k. Finite k = n) (map item_id items)"
    by (simp only: map_item_id_update)
  also have "\<dots> = findIndex (\<lambda>i. Finite (item_id i) = n) items"
    by (rule findIndex_map [symmetric])
  finally show ?thesis using assms by simp
qed

subsection \<open>The routes\<close>

lemma parseRequestBody_Text_of [simp]: "req_body req = Text_of j \<Longrightarrow> parseRequestBody req = Inr j"
  by (simp add: parseRequestBody_def)

lemma parseRequestBody_cases:
  "parseRequestBody req = (if req_body req = Invalid_text then Inl ''Invalid JSON''
     else Inr (case req_body req of Text_of j \<Rightarrow> j | _ \<Rightarrow> JNull))"
  by (cases "req_body req") (simp_all add: parseRequestBody_def)

lemma getItem_file: "snd (getItem n items f) = f"
  by (simp add: getItem_def split: option.splits)

lemma createItem_valid:
  assumes "req_body req = Text_of (JObj fs)" and "map_of fs ''name'' = Some (JStr name)"
  shows "createItem req items f =
           (sendJson 201 (item_json \<lparr>item_id = getNextId items, item_name = name,
                                     item_description = descriptionOf (JObj fs)\<rparr>),
            Some (Text_of (items @ [\<lparr>item_id = getNextId items, item_name = name,
                                     item_description = descriptionOf (JObj fs)\<rparr>])))"
  using assms by (simp add: createItem_def writeItems_def JSON_stringify_def Let_def)


lemma updateItem_valid:
  assumes "req_body req = Text_of (JObj fs)" and "map_of fs ''name'' = Some (JStr name)"
      and "findIndex (\<lambda>i. Finite (item_id i) = n) items = Some index"
  shows "updateItem n req items f =
           (sendJson 200 (item_json \<lparr>item_id = item_id (items ! index), item_name = name,
                                     item_description = descriptionOf (JObj fs)\<rparr>),
            Some (Text_of (items[index := \<lparr>item_id = item_id (items ! index), item_name = name,
                                     item_description = descriptionOf (JObj fs)\<rparr>])))"
proof -
  from findIndex_Some [OF assms(3)] have "index < length items" by simp
  with assms show ?thesis
    by (simp add: updateItem_def writeItems_def JSON_stringify_def Let_def)
qed

lemma updateItem_absent:
  assumes "parseRequestBody req = Inr body" and "findIndex (\<lambda>i. Finite (item_id i) = n) items = None"
  shows "updateItem n req items f = (sendJson 404 (error_json ''Item not found''), f)"
  using assms by (simp add: updateItem_def)

lemma updateItem_rejected:
  assumes "parseRequestBody req = Inl message"
  shows "updateItem n req items f = (sendJson 400 (error_json message), f)"
  using assms by (simp add: updateItem_def)


lemma getItem_created:
  assumes "\<forall>i\<in>set items. item_id i < 2 ^ 53" and "item_id newItem = getNextId items"
  shows "getItem (Finite (getNextId items)) (items @ [newItem]) f = (sendJson 200 (item_json newItem), f)"
proof -
  have "\<forall>x\<in>set items. \<not> Finite (item_id x) = Finite (getNextId items)"
    using getNextId_notin [OF assms(1)] by (metis imageI number.inject)
  with assms(2) have "find (\<lambda>i. Finite (item_id i) = Finite (getNextId items)) (items @ [newItem]) = Some newItem"
    by (intro find_snoc_fresh) simp_all
  then show ?thesis by (simp add: getItem_def)
qed

lemma handleRequest_create_valid:
  assumes "toUpperCase (req_method req) = ''POST''"
      and "req_pathname req = ''/items''"
      and "req_content_type req = Some ''application/json''"
      and "req_body req = Text_of (JObj fs)"
      and "map_of fs ''name'' = Some (JStr name)"
  shows "handleRequest frontend req f =
           (sendJson 201 (item_json \<lparr>item_id = getNextId (collection f), item_name = name,
                                     item_description = descriptionOf (JObj fs)\<rparr>),
            Some (Text_of (collection f @ [\<lparr>item_id = getNextId (collection f), item_name = name,
                                     item_description = descriptionOf (JObj fs)\<rparr>])))"
  using assms by (simp add: handleRequest_create createItem_valid)

subsection \<open>Errors leave the file\<close>





subsection \<open>The ids that each route stores\<close>

lemma createItem_ids:
  "distinct (map item_id items) \<Longrightarrow> \<forall>i\<in>set items. item_id i < 2 ^ 53 \<Longrightarrow> collection f = items \<Longrightarrow>
   distinct (map item_id (collection (snd (createItem req items f))))"
  using getNextId_notin [of items]
  by (auto simp: createItem_def Let_def split: sum.splits option.splits json.splits)

lemma updateItem_ids:
  "collection f = items \<Longrightarrow>
   map item_id (collection (snd (updateItem n req items f))) = map item_id items"
  by (auto simp: updateItem_def Let_def map_item_id_update split: sum.splits option.splits json.splits)

lemma deleteItem_ids:
  "distinct (map item_id items) \<Longrightarrow> collection f = items \<Longrightarrow>
   distinct (map item_id (collection (snd (deleteItem n items f))))"
  using distinct_remove_nth [of "map item_id items"]
  by (auto simp: deleteItem_def Let_def take_map drop_map split: option.splits)

lemma handleRequest_ids:
  assumes "distinct (map item_id (collection f))"
      and "(\<forall>i\<in>set (collection f). item_id i < 2 ^ 53) \<or> toUpperCase (req_method req) \<noteq> ''POST''"
  shows "distinct (map item_id (collection (snd (handleRequest frontend req f))))"
proof (cases "toUpperCase (req_method req) = ''POST''")
  case True
  with assms(2) have "\<forall>i\<in>set (collection f). item_id i < 2 ^ 53" by simp
  with assms(1) True show ?thesis
    by (auto simp: handleRequest_def readItems_eq Let_def createItem_ids split: option.splits)
next
  case False
  with assms(1) show ?thesis
    by (auto simp: handleRequest_def readItems_eq Let_def getItem_file
        updateItem_ids deleteItem_ids split: option.splits)
qed

lemma handleRequest_put_ids:
  assumes "toUpperCase (req_method req) = ''PUT''"
  shows "map item_id (collection (snd (handleRequest frontend req f))) = map item_id (collection f)"
  using assms
  by (auto simp: handleRequest_def readItems_eq Let_def updateItem_ids split: option.splits)

subsection \<open>The requests that succeed\<close>

lemma createItem_201:
  assumes "status (fst (createItem req items f)) = 201"
  shows "\<exists>fs name. req_body req = Text_of (JObj fs) \<and> map_of fs ''name'' = Some (JStr name)"
proof (cases "req_body req")
  case Empty_text
  with assms show ?thesis by (simp add: createItem_def parseRequestBody_def sendJson_def)
next
  case Invalid_text
  with assms show ?thesis by (simp add: createItem_def parseRequestBody_def sendJson_def)
next
  case (Text_of body)
  show ?thesis
  proof (cases body)
    case (JObj fs)
    with assms Text_of show ?thesis
      by (auto simp: createItem_def sendJson_def Let_def split: option.splits json.splits)
  qed (use assms Text_of in \<open>auto simp: createItem_def sendJson_def split: if_splits\<close>)
qed

lemma updateItem_200:
  assumes "status (fst (updateItem n req items f)) = 200"
  shows "\<exists>fs name index. req_body req = Text_of (JObj fs) \<and> map_of fs ''name'' = Some (JStr name) \<and>
           findIndex (\<lambda>i. Finite (item_id i) = n) items = Some index"
proof (cases "req_body req")
  case Empty_text
  with assms show ?thesis
    by (auto simp: updateItem_def parseRequestBody_def sendJson_def split: option.splits)
next
  case Invalid_text
  with assms show ?thesis by (simp add: updateItem_def parseRequestBody_def sendJson_def)
next
  case (Text_of body)
  show ?thesis
  proof (cases body)
    case (JObj fs)
    with assms Text_of show ?thesis
      by (auto simp: updateItem_def sendJson_def Let_def split: option.splits json.splits)
  qed (use assms Text_of in \<open>auto simp: updateItem_def sendJson_def split: option.splits if_splits\<close>)
qed

lemma handleRequest_post_201:
  assumes "toUpperCase (req_method req) = ''POST''"
      and "status (fst (handleRequest frontend req f)) = 201"
  shows "req_pathname req = ''/items'' \<and> req_content_type req = Some ''application/json'' \<and>
         (\<exists>fs name. req_body req = Text_of (JObj fs) \<and> map_of fs ''name'' = Some (JStr name))"
proof -
  from assms have ct: "req_content_type req = Some ''application/json''"
    by (auto simp: handleRequest_def Let_def sendJson_def split: if_splits)
  from assms ct have path: "req_pathname req = ''/items''"
    by (auto simp: handleRequest_def Let_def readItems_eq sendJson_def split: if_splits option.splits)
  from assms ct path have "status (fst (createItem req (collection f) (Some (Text_of (collection f))))) = 201"
    by (simp add: handleRequest_create)
  from createItem_201 [OF this] ct path show ?thesis by simp
qed

lemma handleRequest_put_200:
  assumes "toUpperCase (req_method req) = ''PUT''"
      and "status (fst (handleRequest frontend req f)) = 200"
  shows "req_content_type req = Some ''application/json'' \<and>
         (\<exists>fs name ds index. req_body req = Text_of (JObj fs) \<and> map_of fs ''name'' = Some (JStr name) \<and>
            idMatch (req_pathname req) = Some ds \<and>
            findIndex (\<lambda>i. Finite (item_id i) = Number ds) (collection f) = Some index)"
proof -
  from assms have ct: "req_content_type req = Some ''application/json''"
    by (auto simp: handleRequest_def Let_def sendJson_def split: if_splits)
  from assms ct obtain ds where ds: "idMatch (req_pathname req) = Some ds"
    by (cases "idMatch (req_pathname req)")
       (auto simp: handleRequest_def Let_def readItems_eq sendJson_def split: if_splits)
  from assms ct ds
  have "status (fst (updateItem (Number ds) req (collection f) (Some (Text_of (collection f))))) = 200"
    by (simp add: handleRequest_update)
  from updateItem_200 [OF this] ct ds show ?thesis by simp
qed

lemmas request_eval = toUpperCase_def idMatch_def isDigit_def digitsValue_def digitVal_def
  parseRequestBody_def descriptionOf_def

subsection \<open>Claims\<close>

text \<open>
  C1, as the code has it. The fold of \<open>getNextId\<close> starts at 0 and the sum
  \<open>maxId + 1\<close> is a binary64 sum: on a collection whose only id is -5 the new id is 1,
  not -4, and on a collection whose only id is \<open>2 ^ 53\<close> the new id is \<open>2 ^ 53\<close>
  again, not \<open>2 ^ 53 + 1\<close>.
\<close>

theorem next_id_counterexample:
  "handleRequest no_frontend
     \<lparr>req_method = ''POST'', req_pathname = ''/items'', req_content_type = Some ''application/json'',
      req_body = Text_of (JObj [(''name'', JStr ''B'')])\<rparr>
     (Some (Text_of [\<lparr>item_id = - 5, item_name = ''A'', item_description = ''first''\<rparr>]))
   = (\<lparr>status = 201, payload = Json_payload
         (JObj [(''id'', JNum 1), (''name'', JStr ''B''), (''description'', JStr '''')])\<rparr>,
      Some (Text_of [\<lparr>item_id = - 5, item_name = ''A'', item_description = ''first''\<rparr>,
                     \<lparr>item_id = 1, item_name = ''B'', item_description = ''''\<rparr>])) \<and>
   handleRequest no_frontend
     \<lparr>req_method = ''POST'', req_pathname = ''/items'', req_content_type = Some ''application/json'',
      req_body = Text_of (JObj [(''name'', JStr ''B'')])\<rparr>
     (Some (Text_of [\<lparr>item_id = 9007199254740992, item_name = ''A'', item_description = ''first''\<rparr>]))
   = (\<lparr>status = 201, payload = Json_payload
         (JObj [(''id'', JNum 9007199254740992), (''name'', JStr ''B''), (''description'', JStr '''')])\<rparr>,
      Some (Text_of [\<lparr>item_id = 9007199254740992, item_name = ''A'', item_description = ''first''\<rparr>,
                     \<lparr>item_id = 9007199254740992, item_name = ''B'', item_description = ''''\<rparr>]))"
proof -
  have negative: "getNextId [\<lparr>item_id = - 5, item_name = ''A'', item_description = ''first''\<rparr>] = 1"
    by (simp add: getNextId_def toDouble_small)
  have large: "getNextId [\<lparr>item_id = 9007199254740992, item_name = ''A'', item_description = ''first''\<rparr>]
                 = 9007199254740992"
    by (simp add: getNextId_def toDouble_2_53_plus_1)
  show ?thesis
    by (simp add: handleRequest_create_valid [where name = "''B''"] toUpperCase_def descriptionOf_def
        negative large sendJson_def item_json_def)
qed

text \<open>
  C1, amended. On a collection whose ids are below \<open>2 ^ 53\<close>, a valid creation
  (\<open>POST /items\<close> with the JSON content type and a body that is an object with a string
  \<open>name\<close>) answers 201 with an item, and stores that item at the end of the collection,
  whose id is 1 plus the largest id of the collection as it was before the call when
  some id is 0 or more, and 1 when the collection is empty or holds only negative ids.
\<close>

theorem create_assigns_next_id:
  assumes "toUpperCase (req_method req) = ''POST''"
      and "req_pathname req = ''/items''"
      and "req_content_type req = Some ''application/json''"
      and "req_body req = Text_of (JObj fs)"
      and "map_of fs ''name'' = Some (JStr name)"
      and "\<forall>i\<in>set (collection f). item_id i < 2 ^ 53"
      and "newId = (if \<exists>i\<in>set (collection f). 0 \<le> item_id i
                    then 1 + Max (item_id ` set (collection f)) else 1)"
  shows "handleRequest frontend req f =
           (\<lparr>status = 201, payload = Json_payload
               (JObj [(''id'', JNum newId), (''name'', JStr name),
                      (''description'', JStr (descriptionOf (JObj fs)))])\<rparr>,
            Some (Text_of (collection f @ [\<lparr>item_id = newId, item_name = name,
                                             item_description = descriptionOf (JObj fs)\<rparr>])))"
proof -
  have "getNextId (collection f) = Max (insert 0 (item_id ` set (collection f))) + 1"
    using assms(6) by (rule getNextId_exact)
  also have "\<dots> = newId"
    using assms(7) by (simp only: Max_insert_0) simp
  finally have "getNextId (collection f) = newId" .
  then show ?thesis
    using assms(1-5) by (simp add: handleRequest_create_valid sendJson_def item_json_def)
qed

text \<open>Witness of C1, amended: a creation on a collection with the ids 3 and 2 gets the id 4.\<close>

theorem create_assigns_next_id_witness:
  "handleRequest no_frontend
     \<lparr>req_method = ''POST'', req_pathname = ''/items'', req_content_type = Some ''application/json'',
      req_body = Text_of (JObj [(''name'', JStr ''B'')])\<rparr>
     (Some (Text_of [\<lparr>item_id = 3, item_name = ''A'', item_description = ''first''\<rparr>,
                     \<lparr>item_id = 2, item_name = ''C'', item_description = ''''\<rparr>]))
   = (\<lparr>status = 201, payload = Json_payload
         (JObj [(''id'', JNum 4), (''name'', JStr ''B''), (''description'', JStr '''')])\<rparr>,
      Some (Text_of [\<lparr>item_id = 3, item_name = ''A'', item_description = ''first''\<rparr>,
                     \<lparr>item_id = 2, item_name = ''C'', item_description = ''''\<rparr>,
                     \<lparr>item_id = 4, item_name = ''B'', item_description = ''''\<rparr>]))"
  using create_assigns_next_id [where frontend = no_frontend
      and req = "\<lparr>req_method = ''POST'', req_pathname = ''/items'',
                   req_content_type = Some ''application/json'',
                   req_body = Text_of (JObj [(''name'', JStr ''B'')])\<rparr>"
      and fs = "[(''name'', JStr ''B'')]" and name = "''B''"
      and f = "Some (Text_of [\<lparr>item_id = 3, item_name = ''A'', item_description = ''first''\<rparr>,
                              \<lparr>item_id = 2, item_name = ''C'', item_description = ''''\<rparr>])",
      OF _ _ _ _ _ _ refl]
  by (simp add: toUpperCase_def descriptionOf_def)



text \<open>
  C3. When the text of the data file does not parse, loading returns the empty collection and
  rewrites the file to the empty collection; \<open>GET /items\<close> then answers 200 with the
  empty array, and every request gets the response it would get from a file that holds
  the empty collection, so the caller is not told of the loss.
\<close>

theorem unparsable_store_is_reset:
  assumes "JSON_parse data = None"
  shows "readItems (Some data) = ([], Some (JSON_stringify [])) \<and>
         (toUpperCase (req_method req) = ''GET'' \<and> req_pathname req = ''/items'' \<longrightarrow>
            handleRequest frontend req (Some data) = (sendJson 200 (JArr []), Some (JSON_stringify []))) \<and>
         fst (handleRequest frontend req (Some data))
           = fst (handleRequest frontend req (Some (JSON_stringify [])))"
proof (intro conjI impI)
  show "readItems (Some data) = ([], Some (JSON_stringify []))"
    using assms by (rule readItems_unparsable)
next
  assume "toUpperCase (req_method req) = ''GET'' \<and> req_pathname req = ''/items''"
  then show "handleRequest frontend req (Some data) = (sendJson 200 (JArr []), Some (JSON_stringify []))"
    using assms by (simp add: handleRequest_list collection_unparsable items_json_def JSON_stringify_def)
next
  have "readItems (Some data) = readItems (Some (JSON_stringify []))"
    using assms by (simp add: readItems_eq collection_unparsable JSON_stringify_def)
  then show "fst (handleRequest frontend req (Some data))
           = fst (handleRequest frontend req (Some (JSON_stringify [])))"
    by (simp add: handleRequest_def Let_def)
qed

text \<open>Witness of C3: \<open>GET /items\<close> on a file whose text is rejected by the parser.\<close>

theorem unparsable_store_is_reset_witness:
  "handleRequest no_frontend
     \<lparr>req_method = ''GET'', req_pathname = ''/items'', req_content_type = None,
      req_body = Empty_text\<rparr> (Some Invalid_text)
   = (sendJson 200 (JArr []), Some (Text_of []))"
  using unparsable_store_is_reset [where data = Invalid_text and frontend = no_frontend
      and req = "\<lparr>req_method = ''GET'', req_pathname = ''/items'', req_content_type = None,
                   req_body = Empty_text\<rparr>"]
  by (simp add: toUpperCase_def JSON_stringify_def)

text \<open>
  C4, as the code has it. On a collection whose only id is \<open>2 ^ 53\<close> the sum
  \<open>maxId + 1\<close> is rounded back to \<open>2 ^ 53\<close>: a valid creation stores a second item
  with the id of the first.
\<close>

theorem ids_stay_unique_counterexample:
  "distinct (map item_id (collection
      (Some (Text_of [\<lparr>item_id = 9007199254740992, item_name = ''A'', item_description = ''first''\<rparr>])))) \<and>
   collection (snd (handleRequest no_frontend
      \<lparr>req_method = ''POST'', req_pathname = ''/items'', req_content_type = Some ''application/json'',
       req_body = Text_of (JObj [(''name'', JStr ''B'')])\<rparr>
      (Some (Text_of [\<lparr>item_id = 9007199254740992, item_name = ''A'', item_description = ''first''\<rparr>]))))
   = [\<lparr>item_id = 9007199254740992, item_name = ''A'', item_description = ''first''\<rparr>,
      \<lparr>item_id = 9007199254740992, item_name = ''B'', item_description = ''''\<rparr>] \<and>
   \<not> distinct (map item_id (collection (snd (handleRequest no_frontend
      \<lparr>req_method = ''POST'', req_pathname = ''/items'', req_content_type = Some ''application/json'',
       req_body = Text_of (JObj [(''name'', JStr ''B'')])\<rparr>
      (Some (Text_of [\<lparr>item_id = 9007199254740992, item_name = ''A'', item_description = ''first''\<rparr>]))))))"
proof -
  have large: "getNextId [\<lparr>item_id = 9007199254740992, item_name = ''A'', item_description = ''first''\<rparr>]
                 = 9007199254740992"
    by (simp add: getNextId_def toDouble_2_53_plus_1)
  show ?thesis
    by (simp add: handleRequest_create_valid [where name = "''B''"] toUpperCase_def descriptionOf_def large)
qed

text \<open>
  C4, amended. From a collection whose ids are pairwise different, every request other
  than a \<open>POST\<close> (an update and a deletion among them) leaves a collection whose ids are
  pairwise different, and so does a \<open>POST\<close> when every id of the collection is below
  \<open>2 ^ 53\<close>; a \<open>PUT\<close> request leaves the id at every position of the collection as it
  was, the targeted item's included.
\<close>

theorem ids_stay_unique:
  assumes "distinct (map item_id (collection f))"
  shows "((\<forall>i\<in>set (collection f). item_id i < 2 ^ 53) \<or> toUpperCase (req_method req) \<noteq> ''POST'' \<longrightarrow>
            distinct (map item_id (collection (snd (handleRequest frontend req f))))) \<and>
         (toUpperCase (req_method req) = ''PUT'' \<longrightarrow>
            map item_id (collection (snd (handleRequest frontend req f))) = map item_id (collection f))"
  using assms handleRequest_ids [of f req frontend] handleRequest_put_ids [of req frontend f]
  by blast

text \<open>Witness of C4, amended: an update of the item 2, then a creation, each on a
  collection with the ids 3 and 2.\<close>

theorem ids_stay_unique_witness:
  "map item_id (collection (snd (handleRequest no_frontend
      \<lparr>req_method = ''PUT'', req_pathname = ''/items/2'', req_content_type = Some ''application/json'',
       req_body = Text_of (JObj [(''name'', JStr ''D'')])\<rparr>
      (Some (Text_of [\<lparr>item_id = 3, item_name = ''A'', item_description = ''first''\<rparr>,
                      \<lparr>item_id = 2, item_name = ''C'', item_description = ''''\<rparr>]))))) = [3, 2] \<and>
   distinct (map item_id (collection (snd (handleRequest no_frontend
      \<lparr>req_method = ''POST'', req_pathname = ''/items'', req_content_type = Some ''application/json'',
       req_body = Text_of (JObj [(''name'', JStr ''D'')])\<rparr>
      (Some (Text_of [\<lparr>item_id = 3, item_name = ''A'', item_description = ''first''\<rparr>,
                      \<lparr>item_id = 2, item_name = ''C'', item_description = ''''\<rparr>]))))))"
  using ids_stay_unique [where frontend = no_frontend
      and req = "\<lparr>req_method = ''PUT'', req_pathname = ''/items/2'',
                   req_content_type = Some ''application/json'',
                   req_body = Text_of (JObj [(''name'', JStr ''D'')])\<rparr>"
      and f = "Some (Text_of [\<lparr>item_id = 3, item_name = ''A'', item_description = ''first''\<rparr>,
                              \<lparr>item_id = 2, item_name = ''C'', item_description = ''''\<rparr>])"]
    ids_stay_unique [where frontend = no_frontend
      and req = "\<lparr>req_method = ''POST'', req_pathname = ''/items'',
                   req_content_type = Some ''application/json'',
                   req_body = Text_of (JObj [(''name'', JStr ''D'')])\<rparr>"
      and f = "Some (Text_of [\<lparr>item_id = 3, item_name = ''A'', item_description = ''first''\<rparr>,
                              \<lparr>item_id = 2, item_name = ''C'', item_description = ''''\<rparr>])"]
  by (simp add: toUpperCase_def)

text \<open>
  C5, as the code has it. On a collection whose only id is \<open>2 ^ 53\<close> the creation
  returns an item with the id \<open>2 ^ 53\<close> again, and \<open>GET /items/9007199254740992\<close>
  answers with the older item of that id, whose name and description are not those of
  the created item.
\<close>

theorem create_then_get_counterexample:
  "handleRequest no_frontend
     \<lparr>req_method = ''POST'', req_pathname = ''/items'', req_content_type = Some ''application/json'',
      req_body = Text_of (JObj [(''name'', JStr ''B'')])\<rparr>
     (Some (Text_of [\<lparr>item_id = 9007199254740992, item_name = ''A'', item_description = ''first''\<rparr>]))
   = (\<lparr>status = 201, payload = Json_payload
         (JObj [(''id'', JNum 9007199254740992), (''name'', JStr ''B''), (''description'', JStr '''')])\<rparr>,
      Some (Text_of [\<lparr>item_id = 9007199254740992, item_name = ''A'', item_description = ''first''\<rparr>,
                     \<lparr>item_id = 9007199254740992, item_name = ''B'', item_description = ''''\<rparr>])) \<and>
   handleRequest no_frontend
     \<lparr>req_method = ''GET'', req_pathname = ''/items/9007199254740992'', req_content_type = None,
      req_body = Empty_text\<rparr>
     (Some (Text_of [\<lparr>item_id = 9007199254740992, item_name = ''A'', item_description = ''first''\<rparr>,
                     \<lparr>item_id = 9007199254740992, item_name = ''B'', item_description = ''''\<rparr>]))
   = (\<lparr>status = 200, payload = Json_payload
         (JObj [(''id'', JNum 9007199254740992), (''name'', JStr ''A''),
                (''description'', JStr ''first'')])\<rparr>,
      Some (Text_of [\<lparr>item_id = 9007199254740992, item_name = ''A'', item_description = ''first''\<rparr>,
                     \<lparr>item_id = 9007199254740992, item_name = ''B'', item_description = ''''\<rparr>]))"
proof -
  have large: "getNextId [\<lparr>item_id = 9007199254740992, item_name = ''A'', item_description = ''first''\<rparr>]
                 = 9007199254740992"
    by (simp add: getNextId_def toDouble_2_53_plus_1)
  have path: "Number ''9007199254740992'' = Finite 9007199254740992"
    by (simp add: Number_exact digitsValue_def digitVal_def)
  have created: "handleRequest no_frontend
     \<lparr>req_method = ''POST'', req_pathname = ''/items'', req_content_type = Some ''application/json'',
      req_body = Text_of (JObj [(''name'', JStr ''B'')])\<rparr>
     (Some (Text_of [\<lparr>item_id = 9007199254740992, item_name = ''A'', item_description = ''first''\<rparr>]))
   = (\<lparr>status = 201, payload = Json_payload
         (JObj [(''id'', JNum 9007199254740992), (''name'', JStr ''B''), (''description'', JStr '''')])\<rparr>,
      Some (Text_of [\<lparr>item_id = 9007199254740992, item_name = ''A'', item_description = ''first''\<rparr>,
                     \<lparr>item_id = 9007199254740992, item_name = ''B'', item_description = ''''\<rparr>]))"
    by (simp add: handleRequest_create_valid [where name = "''B''"] toUpperCase_def descriptionOf_def
        large sendJson_def item_json_def)
  have fetched: "handleRequest no_frontend
     \<lparr>req_method = ''GET'', req_pathname = ''/items/9007199254740992'', req_content_type = None,
      req_body = Empty_text\<rparr>
     (Some (Text_of [\<lparr>item_id = 9007199254740992, item_name = ''A'', item_description = ''first''\<rparr>,
                     \<lparr>item_id = 9007199254740992, item_name = ''B'', item_description = ''''\<rparr>]))
   = (\<lparr>status = 200, payload = Json_payload
         (JObj [(''id'', JNum 9007199254740992), (''name'', JStr ''A''),
                (''description'', JStr ''first'')])\<rparr>,
      Some (Text_of [\<lparr>item_id = 9007199254740992, item_name = ''A'', item_description = ''first''\<rparr>,
                     \<lparr>item_id = 9007199254740992, item_name = ''B'', item_description = ''''\<rparr>]))"
    by (simp add: handleRequest_get [where ds = "''9007199254740992''"] toUpperCase_def idMatch_def
        isDigit_def path getItem_def sendJson_def item_json_def)
  from created fetched show ?thesis by (rule conjI)
qed

text \<open>
  C5, amended. On a collection whose ids are below \<open>2 ^ 53\<close>, after a valid creation,
  \<open>GET /items/<id>\<close> with the decimal text of the id that the creation returned answers
  200 with the very item that the creation returned: the same id, name and description.
\<close>

theorem create_then_get:
  assumes "toUpperCase (req_method req) = ''POST''"
      and "req_pathname req = ''/items''"
      and "req_content_type req = Some ''application/json''"
      and "req_body req = Text_of (JObj fs)"
      and "map_of fs ''name'' = Some (JStr name)"
      and "\<forall>i\<in>set (collection f). item_id i < 2 ^ 53"
      and "newItem = \<lparr>item_id = getNextId (collection f), item_name = name,
                       item_description = descriptionOf (JObj fs)\<rparr>"
      and "toUpperCase (req_method fetch) = ''GET''"
      and "req_pathname fetch = ''/items/'' @ decimal (nat (item_id newItem))"
  shows "handleRequest frontend req f =
           (\<lparr>status = 201, payload = Json_payload
               (JObj [(''id'', JNum (item_id newItem)), (''name'', JStr (item_name newItem)),
                      (''description'', JStr (item_description newItem))])\<rparr>,
            Some (Text_of (collection f @ [newItem]))) \<and>
         handleRequest frontend fetch (snd (handleRequest frontend req f)) =
           (\<lparr>status = 200, payload = Json_payload
               (JObj [(''id'', JNum (item_id newItem)), (''name'', JStr (item_name newItem)),
                      (''description'', JStr (item_description newItem))])\<rparr>,
            snd (handleRequest frontend req f))"
proof -
  let ?n = "getNextId (collection f)"
  let ?f1 = "Some (Text_of (collection f @ [newItem]))"
  have created: "handleRequest frontend req f = (sendJson 201 (item_json newItem), ?f1)"
    using assms(1-5,7) by (simp add: handleRequest_create_valid)
  from getNextId_range [OF assms(6)] have range: "1 \<le> ?n" "?n \<le> 2 ^ 53" .
  then have "int (nat ?n) \<le> 2 ^ 53" and "int (nat ?n) = ?n" by simp_all
  then have "Number (decimal (nat ?n)) = Finite ?n"
    using Number_decimal [of "nat ?n"] by simp
  moreover have "idMatch (req_pathname fetch) = Some (decimal (nat ?n))"
    using assms(7,9) idMatch_decimal [of "nat ?n"] by simp
  ultimately have "handleRequest frontend fetch ?f1 = getItem (Finite ?n) (collection ?f1) ?f1"
    using assms(8) by (simp add: handleRequest_get)
  also have "\<dots> = (sendJson 200 (item_json newItem), ?f1)"
    using assms(6,7) by (simp add: getItem_created)
  finally show ?thesis using created by (simp add: sendJson_def item_json_def)
qed

text \<open>Witness of C5, amended: the creation gets the id 12 and is fetched with \<open>/items/12\<close>.\<close>

theorem create_then_get_witness:
  "handleRequest no_frontend
     \<lparr>req_method = ''GET'', req_pathname = ''/items/12'', req_content_type = None,
      req_body = Empty_text\<rparr>
     (snd (handleRequest no_frontend
        \<lparr>req_method = ''POST'', req_pathname = ''/items'', req_content_type = Some ''application/json'',
         req_body = Text_of (JObj [(''name'', JStr ''B''), (''description'', JStr ''second'')])\<rparr>
        (Some (Text_of [\<lparr>item_id = 11, item_name = ''A'', item_description = ''first''\<rparr>]))))
   = (\<lparr>status = 200, payload = Json_payload
         (JObj [(''id'', JNum 12), (''name'', JStr ''B''), (''description'', JStr ''second'')])\<rparr>,
      Some (Text_of [\<lparr>item_id = 11, item_name = ''A'', item_description = ''first''\<rparr>,
                     \<lparr>item_id = 12, item_name = ''B'', item_description = ''second''\<rparr>]))"
proof -
  let ?post = "\<lparr>req_method = ''POST'', req_pathname = ''/items'',
      req_content_type = Some ''application/json'',
      req_body = Text_of (JObj [(''name'', JStr ''B''), (''description'', JStr ''second'')])\<rparr>"
  let ?f = "Some (Text_of [\<lparr>item_id = 11, item_name = ''A'', item_description = ''first''\<rparr>])"
  have next_id: "getNextId [\<lparr>item_id = 11, item_name = ''A'', item_description = ''first''\<rparr>] = 12"
    by (simp add: getNextId_def toDouble_small)
  have path: "decimal 12 = ''12''"
    by (simp add: decimal.simps digitChar_def)
  have stored: "snd (handleRequest no_frontend ?post ?f)
      = Some (Text_of [\<lparr>item_id = 11, item_name = ''A'', item_description = ''first''\<rparr>,
                       \<lparr>item_id = 12, item_name = ''B'', item_description = ''second''\<rparr>])"
    by (simp add: handleRequest_create_valid toUpperCase_def descriptionOf_def next_id)
  show ?thesis
    using create_then_get [where frontend = no_frontend and req = ?post and f = ?f
        and fs = "[(''name'', JStr ''B''), (''description'', JStr ''second'')]" and name = "''B''"
        and fetch = "\<lparr>req_method = ''GET'', req_pathname = ''/items/12'', req_content_type = None,
                       req_body = Empty_text\<rparr>",
        OF _ _ _ _ _ _ refl]
    by (simp add: toUpperCase_def descriptionOf_def next_id path stored)
qed

text \<open>
  C6, as the code has it. The body of a \<open>PUT /items/<id>\<close> is parsed before the item is
  looked up: a body that is not valid JSON answers 400 even when no item has the id.
\<close>

theorem update_absent_id_counterexample:
  "handleRequest no_frontend
     \<lparr>req_method = ''PUT'', req_pathname = ''/items/1'', req_content_type = Some ''application/json'',
      req_body = Invalid_text\<rparr>
     (Some (Text_of []))
   = (\<lparr>status = 400, payload = Json_payload (JObj [(''error'', JStr ''Invalid JSON'')])\<rparr>,
      Some (Text_of []))"
  by (simp add: handleRequest_update [where ds = "''1''"] updateItem_rejected toUpperCase_def
      idMatch_def isDigit_def parseRequestBody_def sendJson_def error_json_def)

text \<open>
  C6, amended. For a \<open>PUT /items/<id>\<close> with the JSON content type where no item has the
  number that the digits of the path read to: when the body is empty or parses as JSON,
  the answer is 404 whatever the body holds, so the check of \<open>name\<close> applies only to an
  existing item; when the body is not valid JSON, the answer is 400 with the message
  \<open>Invalid JSON\<close>. The file keeps the collection.
\<close>

theorem update_absent_id:
  assumes "toUpperCase (req_method req) = ''PUT''"
      and "idMatch (req_pathname req) = Some ds"
      and "req_content_type req = Some ''application/json''"
      and "\<forall>i\<in>set (collection f). Finite (item_id i) \<noteq> Number ds"
  shows "(req_body req \<noteq> Invalid_text \<longrightarrow>
            handleRequest frontend req f
              = (\<lparr>status = 404, payload = Json_payload (JObj [(''error'', JStr ''Item not found'')])\<rparr>,
                 Some (Text_of (collection f)))) \<and>
         (req_body req = Invalid_text \<longrightarrow>
            handleRequest frontend req f
              = (\<lparr>status = 400, payload = Json_payload (JObj [(''error'', JStr ''Invalid JSON'')])\<rparr>,
                 Some (Text_of (collection f))))"
proof -
  have absent: "findIndex (\<lambda>i. Finite (item_id i) = Number ds) (collection f) = None"
    using assms(4) by (simp add: findIndex_None)
  have route: "handleRequest frontend req f
      = updateItem (Number ds) req (collection f) (Some (Text_of (collection f)))"
    using assms(1-3) by (rule handleRequest_update)
  show ?thesis
    using absent
    by (simp add: route parseRequestBody_cases updateItem_rejected updateItem_absent
        sendJson_def error_json_def)
qed

text \<open>Witness of C6, amended: for the absent id 5, a body without a name answers 404 and a
  body that does not parse answers 400.\<close>

theorem update_absent_id_witness:
  "handleRequest no_frontend
     \<lparr>req_method = ''PUT'', req_pathname = ''/items/5'', req_content_type = Some ''application/json'',
      req_body = Text_of (JObj [(''description'', JStr ''no name'')])\<rparr>
     (Some (Text_of [\<lparr>item_id = 1, item_name = ''A'', item_description = ''first''\<rparr>]))
   = (\<lparr>status = 404, payload = Json_payload (JObj [(''error'', JStr ''Item not found'')])\<rparr>,
      Some (Text_of [\<lparr>item_id = 1, item_name = ''A'', item_description = ''first''\<rparr>])) \<and>
   handleRequest no_frontend
     \<lparr>req_method = ''PUT'', req_pathname = ''/items/5'', req_content_type = Some ''application/json'',
      req_body = Invalid_text\<rparr>
     (Some (Text_of [\<lparr>item_id = 1, item_name = ''A'', item_description = ''first''\<rparr>]))
   = (\<lparr>status = 400, payload = Json_payload (JObj [(''error'', JStr ''Invalid JSON'')])\<rparr>,
      Some (Text_of [\<lparr>item_id = 1, item_name = ''A'', item_description = ''first''\<rparr>]))"
proof -
  have five: "Number ''5'' = Finite 5"
    by (simp add: Number_exact digitsValue_def digitVal_def)
  show ?thesis
    using update_absent_id [where frontend = no_frontend
      and req = "\<lparr>req_method = ''PUT'', req_pathname = ''/items/5'',
                   req_content_type = Some ''application/json'',
                   req_body = Text_of (JObj [(''description'', JStr ''no name'')])\<rparr>"
      and ds = "''5''"
      and f = "Some (Text_of [\<lparr>item_id = 1, item_name = ''A'', item_description = ''first''\<rparr>])"]
    update_absent_id [where frontend = no_frontend
      and req = "\<lparr>req_method = ''PUT'', req_pathname = ''/items/5'',
                   req_content_type = Some ''application/json'', req_body = Invalid_text\<rparr>"
      and ds = "''5''"
      and f = "Some (Text_of [\<lparr>item_id = 1, item_name = ''A'', item_description = ''first''\<rparr>])"]
    by (simp add: toUpperCase_def idMatch_def isDigit_def five)
qed

text \<open>
  C7, as the code has it. The validation checks that \<open>name\<close> is a string, not that it has
  characters: a creation whose \<open>name\<close> is the empty string answers 201 and stores the item.
\<close>

theorem nonempty_name_counterexample:
  "handleRequest no_frontend
     \<lparr>req_method = ''POST'', req_pathname = ''/items'', req_content_type = Some ''application/json'',
      req_body = Text_of (JObj [(''name'', JStr '''')])\<rparr>
     (Some (Text_of []))
   = (\<lparr>status = 201, payload = Json_payload
         (JObj [(''id'', JNum 1), (''name'', JStr ''''), (''description'', JStr '''')])\<rparr>,
      Some (Text_of [\<lparr>item_id = 1, item_name = '''', item_description = ''''\<rparr>]))"
  by (simp add: handleRequest_create_valid [where name = "''''"] toUpperCase_def descriptionOf_def
      getNextId_def toDouble_small sendJson_def item_json_def)

text \<open>
  C7, amended. A \<open>POST\<close> is answered 201, and a \<open>PUT\<close> 200, only when the body is an
  object whose \<open>name\<close> is a string, and the item that the request stores then has that
  string as its name, as it was sent. Every such body succeeds (an update, when the item
  exists), whatever the string: the validation checks the type of \<open>name\<close> only, and
  the empty string is stored as a name.
\<close>

theorem stored_name_is_request_name:
  "(toUpperCase (req_method req) = ''POST'' \<and> status (fst (handleRequest frontend req f)) = 201 \<longrightarrow>
      (\<exists>fs name. req_body req = Text_of (JObj fs) \<and> map_of fs ''name'' = Some (JStr name) \<and>
         handleRequest frontend req f =
           (\<lparr>status = 201, payload = Json_payload
               (JObj [(''id'', JNum (getNextId (collection f))), (''name'', JStr name),
                      (''description'', JStr (descriptionOf (JObj fs)))])\<rparr>,
            Some (Text_of (collection f @ [\<lparr>item_id = getNextId (collection f), item_name = name,
                                             item_description = descriptionOf (JObj fs)\<rparr>]))))) \<and>
   (toUpperCase (req_method req) = ''PUT'' \<and> status (fst (handleRequest frontend req f)) = 200 \<longrightarrow>
      (\<exists>fs name ds index. req_body req = Text_of (JObj fs) \<and> map_of fs ''name'' = Some (JStr name) \<and>
         idMatch (req_pathname req) = Some ds \<and>
         findIndex (\<lambda>i. Finite (item_id i) = Number ds) (collection f) = Some index \<and>
         handleRequest frontend req f =
           (\<lparr>status = 200, payload = Json_payload
               (JObj [(''id'', JNum (item_id (collection f ! index))), (''name'', JStr name),
                      (''description'', JStr (descriptionOf (JObj fs)))])\<rparr>,
            Some (Text_of ((collection f)[index :=
               \<lparr>item_id = item_id (collection f ! index), item_name = name,
                item_description = descriptionOf (JObj fs)\<rparr>]))))) \<and>
   (toUpperCase (req_method req) = ''POST'' \<and> req_pathname req = ''/items'' \<and>
    req_content_type req = Some ''application/json'' \<and>
    req_body req = Text_of (JObj sent) \<and> map_of sent ''name'' = Some (JStr sent_name) \<longrightarrow>
      status (fst (handleRequest frontend req f)) = 201) \<and>
   (toUpperCase (req_method req) = ''PUT'' \<and> idMatch (req_pathname req) = Some path_id \<and>
    req_content_type req = Some ''application/json'' \<and>
    req_body req = Text_of (JObj sent) \<and> map_of sent ''name'' = Some (JStr sent_name) \<and>
    findIndex (\<lambda>i. Finite (item_id i) = Number path_id) (collection f) = Some found \<longrightarrow>
      status (fst (handleRequest frontend req f)) = 200)"
proof (intro conjI impI)
  assume a: "toUpperCase (req_method req) = ''POST'' \<and> status (fst (handleRequest frontend req f)) = 201"
  then have "req_pathname req = ''/items'' \<and> req_content_type req = Some ''application/json'' \<and>
         (\<exists>fs name. req_body req = Text_of (JObj fs) \<and> map_of fs ''name'' = Some (JStr name))"
    using handleRequest_post_201 [where req = req and frontend = frontend and f = f] by simp
  then obtain fs name where valid: "req_pathname req = ''/items''"
      "req_content_type req = Some ''application/json''"
      "req_body req = Text_of (JObj fs)" "map_of fs ''name'' = Some (JStr name)"
    by blast
  with a have "handleRequest frontend req f =
           (\<lparr>status = 201, payload = Json_payload
               (JObj [(''id'', JNum (getNextId (collection f))), (''name'', JStr name),
                      (''description'', JStr (descriptionOf (JObj fs)))])\<rparr>,
            Some (Text_of (collection f @ [\<lparr>item_id = getNextId (collection f), item_name = name,
                                             item_description = descriptionOf (JObj fs)\<rparr>])))"
    by (simp add: handleRequest_create_valid sendJson_def item_json_def)
  with valid(3,4) show "\<exists>fs name. req_body req = Text_of (JObj fs) \<and> map_of fs ''name'' = Some (JStr name) \<and>
         handleRequest frontend req f =
           (\<lparr>status = 201, payload = Json_payload
               (JObj [(''id'', JNum (getNextId (collection f))), (''name'', JStr name),
                      (''description'', JStr (descriptionOf (JObj fs)))])\<rparr>,
            Some (Text_of (collection f @ [\<lparr>item_id = getNextId (collection f), item_name = name,
                                             item_description = descriptionOf (JObj fs)\<rparr>])))"
    by blast
next
  assume a: "toUpperCase (req_method req) = ''PUT'' \<and> status (fst (handleRequest frontend req f)) = 200"
  then have "req_content_type req = Some ''application/json'' \<and>
         (\<exists>fs name ds index. req_body req = Text_of (JObj fs) \<and> map_of fs ''name'' = Some (JStr name) \<and>
            idMatch (req_pathname req) = Some ds \<and>
            findIndex (\<lambda>i. Finite (item_id i) = Number ds) (collection f) = Some index)"
    using handleRequest_put_200 [where req = req and frontend = frontend and f = f] by simp
  then obtain fs name ds index where valid: "req_content_type req = Some ''application/json''"
      "req_body req = Text_of (JObj fs)" "map_of fs ''name'' = Some (JStr name)"
      "idMatch (req_pathname req) = Some ds"
      "findIndex (\<lambda>i. Finite (item_id i) = Number ds) (collection f) = Some index"
    by blast
  with a have "handleRequest frontend req f =
           (\<lparr>status = 200, payload = Json_payload
               (JObj [(''id'', JNum (item_id (collection f ! index))), (''name'', JStr name),
                      (''description'', JStr (descriptionOf (JObj fs)))])\<rparr>,
            Some (Text_of ((collection f)[index :=
               \<lparr>item_id = item_id (collection f ! index), item_name = name,
                item_description = descriptionOf (JObj fs)\<rparr>])))"
    by (simp add: handleRequest_update updateItem_valid sendJson_def item_json_def)
  with valid(2-5) show "\<exists>fs name ds index. req_body req = Text_of (JObj fs) \<and>
         map_of fs ''name'' = Some (JStr name) \<and>
         idMatch (req_pathname req) = Some ds \<and>
         findIndex (\<lambda>i. Finite (item_id i) = Number ds) (collection f) = Some index \<and>
         handleRequest frontend req f =
           (\<lparr>status = 200, payload = Json_payload
               (JObj [(''id'', JNum (item_id (collection f ! index))), (''name'', JStr name),
                      (''description'', JStr (descriptionOf (JObj fs)))])\<rparr>,
            Some (Text_of ((collection f)[index :=
               \<lparr>item_id = item_id (collection f ! index), item_name = name,
                item_description = descriptionOf (JObj fs)\<rparr>])))"
    by blast
next
  assume "toUpperCase (req_method req) = ''POST'' \<and> req_pathname req = ''/items'' \<and>
    req_content_type req = Some ''application/json'' \<and>
    req_body req = Text_of (JObj sent) \<and> map_of sent ''name'' = Some (JStr sent_name)"
  then show "status (fst (handleRequest frontend req f)) = 201"
    by (simp add: handleRequest_create_valid sendJson_def)
next
  assume "toUpperCase (req_method req) = ''PUT'' \<and> idMatch (req_pathname req) = Some path_id \<and>
    req_content_type req = Some ''application/json'' \<and>
    req_body req = Text_of (JObj sent) \<and> map_of sent ''name'' = Some (JStr sent_name) \<and>
    findIndex (\<lambda>i. Finite (item_id i) = Number path_id) (collection f) = Some found"
  then show "status (fst (handleRequest frontend req f)) = 200"
    by (simp add: handleRequest_update updateItem_valid sendJson_def)
qed

text \<open>Witness of C7, amended: an update and a creation whose name is the empty string.\<close>

theorem stored_name_is_request_name_witness:
  "handleRequest no_frontend
     \<lparr>req_method = ''PUT'', req_pathname = ''/items/1'', req_content_type = Some ''application/json'',
      req_body = Text_of (JObj [(''name'', JStr '''')])\<rparr>
     (Some (Text_of [\<lparr>item_id = 1, item_name = ''A'', item_description = ''first''\<rparr>]))
   = (\<lparr>status = 200, payload = Json_payload
         (JObj [(''id'', JNum 1), (''name'', JStr ''''), (''description'', JStr '''')])\<rparr>,
      Some (Text_of [\<lparr>item_id = 1, item_name = '''', item_description = ''''\<rparr>])) \<and>
   handleRequest no_frontend
     \<lparr>req_method = ''POST'', req_pathname = ''/items'', req_content_type = Some ''application/json'',
      req_body = Text_of (JObj [(''name'', JStr '''')])\<rparr>
     (Some (Text_of [\<lparr>item_id = 1, item_name = ''A'', item_description = ''first''\<rparr>]))
   = (\<lparr>status = 201, payload = Json_payload
         (JObj [(''id'', JNum 2), (''name'', JStr ''''), (''description'', JStr '''')])\<rparr>,
      Some (Text_of [\<lparr>item_id = 1, item_name = ''A'', item_description = ''first''\<rparr>,
                     \<lparr>item_id = 2, item_name = '''', item_description = ''''\<rparr>]))"
proof -
  let ?f = "Some (Text_of [\<lparr>item_id = 1, item_name = ''A'', item_description = ''first''\<rparr>])"
  let ?put = "\<lparr>req_method = ''PUT'', req_pathname = ''/items/1'',
      req_content_type = Some ''application/json'',
      req_body = Text_of (JObj [(''name'', JStr '''')])\<rparr>"
  let ?post = "\<lparr>req_method = ''POST'', req_pathname = ''/items'',
      req_content_type = Some ''application/json'',
      req_body = Text_of (JObj [(''name'', JStr '''')])\<rparr>"
  have one: "Number ''1'' = Finite 1"
    by (simp add: Number_exact digitsValue_def digitVal_def)
  have next_id: "getNextId [\<lparr>item_id = 1, item_name = ''A'', item_description = ''first''\<rparr>] = 2"
    by (simp add: getNextId_def toDouble_small)
  note put = stored_name_is_request_name [where frontend = no_frontend and req = ?put and f = ?f
      and sent = "[(''name'', JStr '''')]" and sent_name = "''''" and path_id = "''1''" and found = 0]
  note post = stored_name_is_request_name [where frontend = no_frontend and req = ?post and f = ?f
      and sent = "[(''name'', JStr '''')]" and sent_name = "''''"]
  have "status (fst (handleRequest no_frontend ?put ?f)) = 200"
    using put by (simp add: toUpperCase_def idMatch_def isDigit_def one)
  with put have updated: "handleRequest no_frontend ?put ?f
     = (\<lparr>status = 200, payload = Json_payload
         (JObj [(''id'', JNum 1), (''name'', JStr ''''), (''description'', JStr '''')])\<rparr>,
        Some (Text_of [\<lparr>item_id = 1, item_name = '''', item_description = ''''\<rparr>]))"
    by (auto simp: toUpperCase_def idMatch_def isDigit_def one descriptionOf_def)
  have "status (fst (handleRequest no_frontend ?post ?f)) = 201"
    using post by (simp add: toUpperCase_def)
  with post have created: "handleRequest no_frontend ?post ?f
     = (\<lparr>status = 201, payload = Json_payload
         (JObj [(''id'', JNum 2), (''name'', JStr ''''), (''description'', JStr '''')])\<rparr>,
        Some (Text_of [\<lparr>item_id = 1, item_name = ''A'', item_description = ''first''\<rparr>,
                       \<lparr>item_id = 2, item_name = '''', item_description = ''''\<rparr>]))"
    by (auto simp: toUpperCase_def descriptionOf_def next_id)
  from updated created show ?thesis by (rule conjI)
qed

text \<open>
  C8, as the code has it. The content-type gate comes before the routes: a \<open>POST\<close> to a
  path that no operation has, sent without the JSON content type, answers 415.
\<close>

theorem fallback_not_found_counterexample:
  "requestListener no_frontend
     \<lparr>req_method = ''POST'', req_pathname = ''/nope'', req_content_type = None,
      req_body = Empty_text\<rparr>
     (Some (Text_of []))
   = (\<lparr>status = 415, payload = Json_payload
         (JObj [(''error'', JStr ''Content-Type must be application/json'')])\<rparr>,
      Some (Text_of []))"
  by (simp add: requestListener_def handleRequest_gate toUpperCase_def sendJson_def error_json_def)

text \<open>
  C8, amended. A request whose method and path match none of the five operations is
  answered, whatever its body: 204 without a body when the method is \<open>OPTIONS\<close>;
  otherwise 415 when the method is \<open>POST\<close> or \<open>PUT\<close> and the content type is not
  \<open>application/json\<close>; otherwise, for \<open>GET /\<close> and \<open>GET /script.js\<close>, 200 with the
  static file, or 500 when the file cannot be read; and 404 with the message
  \<open>Not found\<close> in every other case. Only the first two leave the data file unread.
\<close>

theorem fallback_not_found:
  assumes "\<not> (toUpperCase (req_method req) = ''GET'' \<and> req_pathname req = ''/items'')"
      and "\<not> (toUpperCase (req_method req) = ''GET'' \<and> idMatch (req_pathname req) \<noteq> None)"
      and "\<not> (toUpperCase (req_method req) = ''POST'' \<and> req_pathname req = ''/items'')"
      and "\<not> (toUpperCase (req_method req) = ''PUT'' \<and> idMatch (req_pathname req) \<noteq> None)"
      and "\<not> (toUpperCase (req_method req) = ''DELETE'' \<and> idMatch (req_pathname req) \<noteq> None)"
  shows "requestListener frontend req f =
     (if toUpperCase (req_method req) = ''OPTIONS''
      then (\<lparr>status = 204, payload = No_payload\<rparr>, f)
      else if (toUpperCase (req_method req) = ''POST'' \<or> toUpperCase (req_method req) = ''PUT'') \<and>
              req_content_type req \<noteq> Some ''application/json''
      then (\<lparr>status = 415, payload = Json_payload
               (JObj [(''error'', JStr ''Content-Type must be application/json'')])\<rparr>, f)
      else if toUpperCase (req_method req) = ''GET'' \<and> req_pathname req = ''/''
      then ((case frontend ''index.html'' of
               None \<Rightarrow> \<lparr>status = 500, payload = Json_payload
                         (JObj [(''error'', JStr ''Failed to load index.html'')])\<rparr>
             | Some data \<Rightarrow> \<lparr>status = 200, payload = Html data\<rparr>),
            Some (Text_of (collection f)))
      else if toUpperCase (req_method req) = ''GET'' \<and> req_pathname req = ''/script.js''
      then ((case frontend ''script.js'' of
               None \<Rightarrow> \<lparr>status = 500, payload = Json_payload
                         (JObj [(''error'', JStr ''Failed to load script.js'')])\<rparr>
             | Some data \<Rightarrow> \<lparr>status = 200, payload = Javascript data\<rparr>),
            Some (Text_of (collection f)))
      else (\<lparr>status = 404, payload = Json_payload (JObj [(''error'', JStr ''Not found'')])\<rparr>,
            Some (Text_of (collection f))))"
  using assms
  by (auto simp: requestListener_def handleRequest_def readItems_eq Let_def serveStatic_def
      sendJson_def error_json_def split: option.splits)

text \<open>Witness of C8, amended: \<open>PATCH /items/1\<close>, a \<open>POST\<close> of JSON to \<open>/nope\<close>,
  \<open>OPTIONS /items\<close>, and \<open>GET /\<close> where the page cannot be read.\<close>

theorem fallback_not_found_witness:
  "requestListener no_frontend
     \<lparr>req_method = ''PATCH'', req_pathname = ''/items/1'', req_content_type = None,
      req_body = Empty_text\<rparr>
     (Some (Text_of [\<lparr>item_id = 1, item_name = ''A'', item_description = ''first''\<rparr>]))
   = (\<lparr>status = 404, payload = Json_payload (JObj [(''error'', JStr ''Not found'')])\<rparr>,
      Some (Text_of [\<lparr>item_id = 1, item_name = ''A'', item_description = ''first''\<rparr>])) \<and>
   requestListener no_frontend
     \<lparr>req_method = ''POST'', req_pathname = ''/nope'', req_content_type = Some ''application/json'',
      req_body = Text_of (JObj [(''name'', JStr ''B'')])\<rparr>
     (Some (Text_of [\<lparr>item_id = 1, item_name = ''A'', item_description = ''first''\<rparr>]))
   = (\<lparr>status = 404, payload = Json_payload (JObj [(''error'', JStr ''Not found'')])\<rparr>,
      Some (Text_of [\<lparr>item_id = 1, item_name = ''A'', item_description = ''first''\<rparr>])) \<and>
   requestListener no_frontend
     \<lparr>req_method = ''OPTIONS'', req_pathname = ''/items'', req_content_type = None,
      req_body = Empty_text\<rparr>
     (Some Invalid_text)
   = (\<lparr>status = 204, payload = No_payload\<rparr>, Some Invalid_text) \<and>
   requestListener no_frontend
     \<lparr>req_method = ''GET'', req_pathname = ''/'', req_content_type = None,
      req_body = Empty_text\<rparr>
     None
   = (\<lparr>status = 500, payload = Json_payload
         (JObj [(''error'', JStr ''Failed to load index.html'')])\<rparr>,
      Some (Text_of []))"
  using fallback_not_found [where frontend = no_frontend
      and req = "\<lparr>req_method = ''PATCH'', req_pathname = ''/items/1'', req_content_type = None,
                   req_body = Empty_text\<rparr>"
      and f = "Some (Text_of [\<lparr>item_id = 1, item_name = ''A'', item_description = ''first''\<rparr>])"]
    fallback_not_found [where frontend = no_frontend
      and req = "\<lparr>req_method = ''POST'', req_pathname = ''/nope'',
                   req_content_type = Some ''application/json'',
                   req_body = Text_of (JObj [(''name'', JStr ''B'')])\<rparr>"
      and f = "Some (Text_of [\<lparr>item_id = 1, item_name = ''A'', item_description = ''first''\<rparr>])"]
    fallback_not_found [where frontend = no_frontend
      and req = "\<lparr>req_method = ''OPTIONS'', req_pathname = ''/items'', req_content_type = None,
                   req_body = Empty_text\<rparr>"
      and f = "Some Invalid_text"]
    fallback_not_found [where frontend = no_frontend
      and req = "\<lparr>req_method = ''GET'', req_pathname = ''/'', req_content_type = None,
                   req_body = Empty_text\<rparr>"
      and f = None]
  by (simp add: toUpperCase_def idMatch_def isDigit_def no_frontend_def)

text \<open>
  C9. A valid update (\<open>PUT /items/<id>\<close> with the JSON content type and a body that is an
  object with a string \<open>name\<close>) sent a second time gives the same response and leaves the
  same file, hence the same collection and the same stored item, as the first time.
\<close>

theorem update_idempotent:
  assumes "toUpperCase (req_method req) = ''PUT''"
      and "idMatch (req_pathname req) = Some ds"
      and "req_content_type req = Some ''application/json''"
      and "req_body req = Text_of (JObj fs)"
      and "map_of fs ''name'' = Some (JStr name)"
  shows "handleRequest frontend req (snd (handleRequest frontend req f)) = handleRequest frontend req f"
proof (cases "findIndex (\<lambda>i. Finite (item_id i) = Number ds) (collection f)")
  case None
  have "parseRequestBody req = Inr (JObj fs)"
    using assms(4) by simp
  then have once: "handleRequest frontend req g = (sendJson 404 (error_json ''Item not found''), Some (Text_of (collection f)))"
    if "collection g = collection f" for g
    using assms(1-3) None that by (simp add: handleRequest_update updateItem_absent)
  show ?thesis by (simp add: once)
next
  case (Some index)
  let ?item = "\<lparr>item_id = item_id (collection f ! index), item_name = name,
                item_description = descriptionOf (JObj fs)\<rparr>"
  let ?f1 = "Some (Text_of ((collection f)[index := ?item]))"
  from findIndex_Some [OF Some] have index: "index < length (collection f)" by simp
  have first: "handleRequest frontend req f = (sendJson 200 (item_json ?item), ?f1)"
    using assms Some by (simp add: handleRequest_update updateItem_valid)
  have "handleRequest frontend req ?f1
          = (sendJson 200 (item_json ?item), Some (Text_of ((collection f)[index := ?item, index := ?item])))"
    using assms findIndex_update [OF Some] index
    by (simp add: handleRequest_update updateItem_valid)
  with first show ?thesis by simp
qed

text \<open>Witness of C9: the item 2 of a collection with the ids 3 and 2 is renamed twice.\<close>

theorem update_idempotent_witness:
  "handleRequest no_frontend
     \<lparr>req_method = ''PUT'', req_pathname = ''/items/2'', req_content_type = Some ''application/json'',
      req_body = Text_of (JObj [(''name'', JStr ''D'')])\<rparr>
     (snd (handleRequest no_frontend
        \<lparr>req_method = ''PUT'', req_pathname = ''/items/2'', req_content_type = Some ''application/json'',
         req_body = Text_of (JObj [(''name'', JStr ''D'')])\<rparr>
        (Some (Text_of [\<lparr>item_id = 3, item_name = ''A'', item_description = ''first''\<rparr>,
                        \<lparr>item_id = 2, item_name = ''C'', item_description = ''old''\<rparr>]))))
   = (sendJson 200 (item_json \<lparr>item_id = 2, item_name = ''D'', item_description = ''''\<rparr>),
      Some (Text_of [\<lparr>item_id = 3, item_name = ''A'', item_description = ''first''\<rparr>,
                     \<lparr>item_id = 2, item_name = ''D'', item_description = ''''\<rparr>]))"
proof -
  let ?put = "\<lparr>req_method = ''PUT'', req_pathname = ''/items/2'',
      req_content_type = Some ''application/json'',
      req_body = Text_of (JObj [(''name'', JStr ''D'')])\<rparr>"
  let ?f = "Some (Text_of [\<lparr>item_id = 3, item_name = ''A'', item_description = ''first''\<rparr>,
                           \<lparr>item_id = 2, item_name = ''C'', item_description = ''old''\<rparr>])"
  have two: "Number ''2'' = Finite 2"
    by (simp add: Number_exact digitsValue_def digitVal_def)
  have once: "handleRequest no_frontend ?put ?f
      = (sendJson 200 (item_json \<lparr>item_id = 2, item_name = ''D'', item_description = ''''\<rparr>),
         Some (Text_of [\<lparr>item_id = 3, item_name = ''A'', item_description = ''first''\<rparr>,
                        \<lparr>item_id = 2, item_name = ''D'', item_description = ''''\<rparr>]))"
    by (simp add: handleRequest_update [where ds = "''2''"] updateItem_valid [where index = 1]
        toUpperCase_def idMatch_def isDigit_def descriptionOf_def two)
  show ?thesis
    using update_idempotent [where frontend = no_frontend and req = ?put and f = ?f
        and ds = "''2''" and fs = "[(''name'', JStr ''D'')]" and name = "''D''"]
    by (simp add: toUpperCase_def idMatch_def isDigit_def once)
qed

text \<open>
  C10. A valid creation answers with the object of exactly the three fields \<open>id\<close>,
  \<open>name\<close> and \<open>description\<close>, in which \<open>id\<close> is the next id of the server, and stores
  that item; an \<open>id\<close> or any other field of the body has no effect: two valid bodies
  with the same \<open>name\<close> and the same \<open>description\<close> give the same response and the same
  file.
\<close>

theorem create_ignores_extra_fields:
  assumes "toUpperCase (req_method req) = ''POST''"
      and "req_pathname req = ''/items''"
      and "req_content_type req = Some ''application/json''"
      and "req_body req = Text_of (JObj fs)"
      and "map_of fs ''name'' = Some (JStr name)"
  shows "handleRequest frontend req f =
           (sendJson 201 (JObj [(''id'', JNum (getNextId (collection f))), (''name'', JStr name),
                                (''description'', JStr (descriptionOf (JObj fs)))]),
            Some (Text_of (collection f @ [\<lparr>item_id = getNextId (collection f), item_name = name,
                                             item_description = descriptionOf (JObj fs)\<rparr>]))) \<and>
         (\<forall>fs'. map_of fs' ''name'' = map_of fs ''name'' \<and>
                map_of fs' ''description'' = map_of fs ''description'' \<longrightarrow>
                handleRequest frontend (req\<lparr>req_body := Text_of (JObj fs')\<rparr>) f
                  = handleRequest frontend req f)"
proof (intro conjI allI impI)
  show "handleRequest frontend req f =
           (sendJson 201 (JObj [(''id'', JNum (getNextId (collection f))), (''name'', JStr name),
                                (''description'', JStr (descriptionOf (JObj fs)))]),
            Some (Text_of (collection f @ [\<lparr>item_id = getNextId (collection f), item_name = name,
                                             item_description = descriptionOf (JObj fs)\<rparr>])))"
    using assms by (simp add: handleRequest_create_valid item_json_def)
next
  fix fs'
  assume same: "map_of fs' ''name'' = map_of fs ''name'' \<and>
                map_of fs' ''description'' = map_of fs ''description''"
  then have "descriptionOf (JObj fs') = descriptionOf (JObj fs)"
    by (simp add: descriptionOf_def)
  moreover have "handleRequest frontend (req\<lparr>req_body := Text_of (JObj fs')\<rparr>) f =
           (sendJson 201 (item_json \<lparr>item_id = getNextId (collection f), item_name = name,
                                     item_description = descriptionOf (JObj fs')\<rparr>),
            Some (Text_of (collection f @ [\<lparr>item_id = getNextId (collection f), item_name = name,
                                     item_description = descriptionOf (JObj fs')\<rparr>])))"
    using assms(1-3,5) same by (intro handleRequest_create_valid) simp_all
  ultimately show "handleRequest frontend (req\<lparr>req_body := Text_of (JObj fs')\<rparr>) f
                  = handleRequest frontend req f"
    using assms by (simp add: handleRequest_create_valid)
qed

text \<open>Witness of C10: a body that brings its own \<open>id\<close> 99 and a field \<open>admin\<close> gets the
  id 2, and the same answer as the body with the name alone.\<close>

theorem create_ignores_extra_fields_witness:
  "handleRequest no_frontend
     \<lparr>req_method = ''POST'', req_pathname = ''/items'', req_content_type = Some ''application/json'',
      req_body = Text_of (JObj [(''id'', JNum 99), (''name'', JStr ''B''), (''admin'', JBool True)])\<rparr>
     (Some (Text_of [\<lparr>item_id = 1, item_name = ''A'', item_description = ''first''\<rparr>]))
   = (sendJson 201 (JObj [(''id'', JNum 2), (''name'', JStr ''B''), (''description'', JStr '''')]),
      Some (Text_of [\<lparr>item_id = 1, item_name = ''A'', item_description = ''first''\<rparr>,
                     \<lparr>item_id = 2, item_name = ''B'', item_description = ''''\<rparr>])) \<and>
   handleRequest no_frontend
     \<lparr>req_method = ''POST'', req_pathname = ''/items'', req_content_type = Some ''application/json'',
      req_body = Text_of (JObj [(''name'', JStr ''B'')])\<rparr>
     (Some (Text_of [\<lparr>item_id = 1, item_name = ''A'', item_description = ''first''\<rparr>]))
   = handleRequest no_frontend
     \<lparr>req_method = ''POST'', req_pathname = ''/items'', req_content_type = Some ''application/json'',
      req_body = Text_of (JObj [(''id'', JNum 99), (''name'', JStr ''B''), (''admin'', JBool True)])\<rparr>
     (Some (Text_of [\<lparr>item_id = 1, item_name = ''A'', item_description = ''first''\<rparr>]))"
proof -
  let ?req = "\<lparr>req_method = ''POST'', req_pathname = ''/items'',
      req_content_type = Some ''application/json'',
      req_body = Text_of (JObj [(''id'', JNum 99), (''name'', JStr ''B''), (''admin'', JBool True)])\<rparr>"
  let ?f = "Some (Text_of [\<lparr>item_id = 1, item_name = ''A'', item_description = ''first''\<rparr>])"
  note inst = create_ignores_extra_fields [where frontend = no_frontend and req = ?req
      and fs = "[(''id'', JNum 99), (''name'', JStr ''B''), (''admin'', JBool True)]"
      and name = "''B''" and f = ?f]
  have both: "handleRequest no_frontend ?req ?f
      = (sendJson 201 (JObj [(''id'', JNum 2), (''name'', JStr ''B''), (''description'', JStr '''')]),
         Some (Text_of [\<lparr>item_id = 1, item_name = ''A'', item_description = ''first''\<rparr>,
                        \<lparr>item_id = 2, item_name = ''B'', item_description = ''''\<rparr>])) \<and>
    (\<forall>fs'. map_of fs' ''name'' = Some (JStr ''B'') \<and> map_of fs' ''description'' = None \<longrightarrow>
       handleRequest no_frontend (?req\<lparr>req_body := Text_of (JObj fs')\<rparr>) ?f
         = handleRequest no_frontend ?req ?f)"
    using inst by (simp add: toUpperCase_def descriptionOf_def getNextId_def toDouble_small)
  then have "handleRequest no_frontend (?req\<lparr>req_body := Text_of (JObj [(''name'', JStr ''B'')])\<rparr>) ?f
         = handleRequest no_frontend ?req ?f"
    by simp
  with both show ?thesis by simp
qed

end
